theory Spec2Isabelle
  imports Complex_Main
begin

section \<open>JavaScript values\<close>

text \<open>
  A JavaScript string is a sequence of UTF-16 code units; it is modelled as the list of
  their numbers, so that the white space \<^verbatim>\<open>trim\<close> removes beyond Latin-1 is
  there. \<open>js ''abc''\<close> is the string of an ASCII literal. The empty string is the
  only falsy string.
\<close>

type_synonym jsstring = "nat list"

definition js :: "string \<Rightarrow> jsstring" where
  "js s = map of_char s"

text \<open>
  A JavaScript number: a double is read as the rational it denotes (the code only
  compares and selects numbers, it never computes with them), next to NaN and the two
  infinities.
\<close>

datatype jsnum = NaN | Num rat | PosInfinity | NegInfinity

fun isNaN :: "jsnum \<Rightarrow> bool" where
  "isNaN NaN = True"
| "isNaN _ = False"

text \<open>\<open>a >= b\<close>, \<open>a <= b\<close> and \<open>a > b\<close> of JavaScript: false as soon as one side is NaN.\<close>

fun num_le :: "jsnum \<Rightarrow> jsnum \<Rightarrow> bool" where
  "num_le NaN _ = False"
| "num_le _ NaN = False"
| "num_le NegInfinity _ = True"
| "num_le _ PosInfinity = True"
| "num_le (Num a) (Num b) = (a \<le> b)"
| "num_le _ _ = False"

definition num_ge :: "jsnum \<Rightarrow> jsnum \<Rightarrow> bool" where
  "num_ge a b = num_le b a"

definition num_gt :: "jsnum \<Rightarrow> jsnum \<Rightarrow> bool" where
  "num_gt a b = (num_le b a \<and> a \<noteq> b)"

text \<open>Truthiness of a number: \<open>0\<close> and \<open>NaN\<close> are falsy.\<close>

fun truthy_num :: "jsnum \<Rightarrow> bool" where
  "truthy_num NaN = False"
| "truthy_num (Num x) = (x \<noteq> 0)"
| "truthy_num _ = True"

text \<open>The values a request body or a metadata bag holds; \<open>VObj\<close> is any object or array.\<close>

datatype jsval = VUndefined | VNull | VBool bool | VNum jsnum | VStr jsstring | VObj

type_synonym bag = "(jsstring \<times> jsval) list"

section \<open>The session store (models/chatModel.js)\<close>

record message =
  m_id :: jsstring
  m_sessionId :: jsstring
  m_role :: jsstring
  m_content :: jsstring
  m_timestamp :: int
  m_metadata :: bag

record session =
  s_sessionId :: jsstring
  s_createdAt :: int
  s_lastActivity :: int
  s_messages :: "message list"
  s_context :: bag

text \<open>
  The two \<^verbatim>\<open>Map\<close>s of \<^verbatim>\<open>ChatModel\<close>. A session object is mutated in place in
  the source; here the map is updated with the new value. A message object is shared
  between both maps and never written after its creation, so it is kept by value.
\<close>

record store =
  sessions :: "jsstring \<rightharpoonup> session"
  messages :: "jsstring \<rightharpoonup> message"

definition empty_store :: store where
  "empty_store = \<lparr>sessions = Map.empty, messages = Map.empty\<rparr>"

text \<open>
  What the environment answers during one \<^verbatim>\<open>createMessage\<close>: \<^verbatim>\<open>Date.now()\<close> and
  the digits of \<^verbatim>\<open>Math.random().toString(36).substr(2)\<close> in \<^verbatim>\<open>generateId\<close>, the
  \<^verbatim>\<open>new Date()\<close> of the message, and the \<^verbatim>\<open>new Date()\<close> of
  \<^verbatim>\<open>addMessageToSession\<close>. Times are milliseconds.
\<close>

record msg_reads =
  idNow :: int
  idRandom :: jsstring
  created :: int
  appended :: int

definition digit36 :: "nat \<Rightarrow> nat" where
  "digit36 d = (if d < 10 then 48 + d else 87 + d)"

fun digits36 :: "nat \<Rightarrow> jsstring" where
  "digits36 n = (if n < 36 then [digit36 n] else digits36 (n div 36) @ [digit36 (n mod 36)])"

declare digits36.simps [simp del]

text \<open>\<^verbatim>\<open>Number.prototype.toString(36)\<close> of an integer.\<close>

definition toString36 :: "int \<Rightarrow> jsstring" where
  "toString36 n = (if n < 0 then 45 # digits36 (nat (- n)) else digits36 (nat n))"

definition generateId :: "int \<Rightarrow> jsstring \<Rightarrow> jsstring" where
  "generateId now rnd = toString36 now @ rnd"

definition addMessageToSession :: "store \<Rightarrow> jsstring \<Rightarrow> message \<Rightarrow> int \<Rightarrow> store" where
  "addMessageToSession st sessionId msg now =
     (case sessions st sessionId of
        None \<Rightarrow> st
      | Some session \<Rightarrow>
          st\<lparr>sessions := (sessions st)(sessionId \<mapsto>
               session\<lparr>s_messages := s_messages session @ [msg], s_lastActivity := now\<rparr>)\<rparr>)"

definition createMessage ::
  "store \<Rightarrow> msg_reads \<Rightarrow> jsstring \<Rightarrow> jsstring \<Rightarrow> jsstring \<Rightarrow> bag \<Rightarrow> message \<times> store" where
  "createMessage st rd sessionId role content metadata =
     (let messageId = generateId (idNow rd) (idRandom rd);
          timestamp = created rd;
          msg = \<lparr>m_id = messageId, m_sessionId = sessionId, m_role = role,
                 m_content = content, m_timestamp = timestamp, m_metadata = metadata\<rparr>;
          st1 = st\<lparr>messages := (messages st)(messageId \<mapsto> msg)\<rparr>
      in (msg, addMessageToSession st1 sessionId msg (appended rd)))"

text \<open>
  \<^verbatim>\<open>Array.prototype.slice(start)\<close> for an integer \<open>start\<close>: a negative start counts
  from the end, and both ends are clamped to the array.
\<close>

definition slice_from :: "'a list \<Rightarrow> int \<Rightarrow> 'a list" where
  "slice_from xs start =
     (let len = int (length xs);
          k = (if start < 0 then max (len + start) 0 else min start len)
      in drop (nat k) xs)"

text \<open>
  \<open>limit\<close> is \<open>None\<close> for \<^verbatim>\<open>null\<close> (the default) and an integer otherwise;
  \<^verbatim>\<open>limit ? ... : ...\<close> takes \<open>0\<close> and \<^verbatim>\<open>null\<close> the same way.
\<close>

definition getSessionMessages :: "store \<Rightarrow> jsstring \<Rightarrow> int option \<Rightarrow> message list" where
  "getSessionMessages st sessionId limit =
     (case sessions st sessionId of
        None \<Rightarrow> []
      | Some session \<Rightarrow>
          (let msgs = s_messages session
           in case limit of
                None \<Rightarrow> msgs
              | Some l \<Rightarrow> if l \<noteq> 0 then slice_from msgs (- l) else msgs))"

text \<open>\<open>now\<close> is the \<^verbatim>\<open>new Date()\<close> of the call. The session returned is the stored one.\<close>

definition createOrUpdateSession ::
  "store \<Rightarrow> jsstring \<Rightarrow> bag \<Rightarrow> int \<Rightarrow> session \<times> store" where
  "createOrUpdateSession st sessionId context0 now =
     (case sessions st sessionId of
        Some existingSession \<Rightarrow>
          (let updated = existingSession\<lparr>s_lastActivity := now\<rparr>
           in (updated, st\<lparr>sessions := (sessions st)(sessionId \<mapsto> updated)\<rparr>))
      | None \<Rightarrow>
          (let session = \<lparr>s_sessionId = sessionId, s_createdAt = now, s_lastActivity = now,
                          s_messages = [], s_context = context0\<rparr>
           in (session, st\<lparr>sessions := (sessions st)(sessionId \<mapsto> session)\<rparr>)))"

definition getSession :: "store \<Rightarrow> jsstring \<Rightarrow> session option" where
  "getSession st sessionId = sessions st sessionId"

definition deleteSession :: "store \<Rightarrow> jsstring \<Rightarrow> bool \<times> store" where
  "deleteSession st sessionId =
     (case sessions st sessionId of
        None \<Rightarrow> (False, st)
      | Some session \<Rightarrow>
          (True, \<lparr>sessions = (sessions st)(sessionId := None),
                  messages = foldl (\<lambda>mm msg. mm(m_id msg := None)) (messages st)
                               (s_messages session)\<rparr>))"

text \<open>Creating the messages of a list of calls for one session, in order.\<close>

fun createMessages ::
  "store \<Rightarrow> jsstring \<Rightarrow> (msg_reads \<times> jsstring \<times> jsstring \<times> bag) list \<Rightarrow> message list \<times> store" where
  "createMessages st sessionId [] = ([], st)"
| "createMessages st sessionId ((rd, role, content, metadata) # calls) =
     (let (msg, st1) = createMessage st rd sessionId role content metadata;
          (msgs, st2) = createMessages st1 sessionId calls
      in (msg # msgs, st2))"

section \<open>The conversation service (services/chatService.js)\<close>

text \<open>
  \<^verbatim>\<open>String.prototype.trim\<close>: the white space and line terminators of ECMAScript,
  as code units.
\<close>

definition isWhiteSpace :: "nat \<Rightarrow> bool" where
  "isWhiteSpace c =
     (c \<in> set [9, 10, 11, 12, 13, 32, 160, 5760, 8232, 8233, 8239, 8287, 12288, 65279]
      \<or> (8192 \<le> c \<and> c \<le> 8202))"

definition trim :: "jsstring \<Rightarrow> jsstring" where
  "trim s = rev (dropWhile isWhiteSpace (rev (dropWhile isWhiteSpace s)))"

text \<open>\<^verbatim>\<open>a || b\<close> where \<open>a\<close> is a string or a number, or undefined (\<open>None\<close>).\<close>

fun or_str :: "jsstring option \<Rightarrow> jsstring \<Rightarrow> jsstring" where
  "or_str None d = d"
| "or_str (Some a) d = (if a \<noteq> [] then a else d)"

fun or_num :: "jsnum option \<Rightarrow> jsnum \<Rightarrow> jsnum" where
  "or_num None d = d"
| "or_num (Some a) d = (if truthy_num a then a else d)"

record service =
  defaultModel :: jsstring
  maxTokens :: jsnum
  temperature :: jsnum

text \<open>
  The constructor, from \<^verbatim>\<open>process.env.OPENAI_MODEL\<close> and from what \<^verbatim>\<open>parseInt\<close>
  and \<^verbatim>\<open>parseFloat\<close> made of the two other variables.
\<close>

definition ChatService :: "jsstring option \<Rightarrow> jsnum \<Rightarrow> jsnum \<Rightarrow> service" where
  "ChatService envModel envMaxTokens envTemperature =
     \<lparr>defaultModel = or_str envModel (js ''gpt-4o-mini''),
      maxTokens = or_num (Some envMaxTokens) (Num 1000),
      temperature = or_num (Some envTemperature) (Num (7 / 10))\<rparr>"

record chat =
  c_role :: jsstring
  c_content :: jsstring

definition systemPrompt :: jsstring where
  "systemPrompt = js ''Eres un asistente '' @ [250] @
     js ''til y amigable. Responde de manera clara y concisa.''"

text \<open>\<open>envPrompt\<close> is \<^verbatim>\<open>process.env.SYSTEM_PROMPT\<close>.\<close>

definition prepareMessagesForOpenAI :: "jsstring option \<Rightarrow> message list \<Rightarrow> chat list" where
  "prepareMessagesForOpenAI envPrompt sessionMessages =
     (let systemMessage = \<lparr>c_role = js ''system'', c_content = or_str envPrompt systemPrompt\<rparr>
      in foldl (\<lambda>msgs msg. msgs @ [\<lparr>c_role = m_role msg, c_content = m_content msg\<rparr>])
           [systemMessage] sessionMessages)"

text \<open>The options object as \<^verbatim>\<open>validateOptions\<close> builds it: each field is there or not.\<close>

record options =
  o_model :: "jsstring option"
  o_temperature :: "jsnum option"
  o_maxTokens :: "jsnum option"

record request =
  rq_model :: jsstring
  rq_messages :: "chat list"
  rq_temperature :: jsnum
  rq_max_tokens :: jsnum
  rq_stream :: bool

text \<open>
  The external call \<^verbatim>\<open>client.chat.completions.create\<close>: it throws an error with a
  message, or answers; \<open>Response c\<close> holds \<^verbatim>\<open>response.choices[0]?.message?.content\<close>,
  \<open>None\<close> when that is undefined or null.
\<close>

datatype completion = Fault jsstring | Response "jsstring option"

type_synonym client = "request \<Rightarrow> completion"

text \<open>The object \<^verbatim>\<open>callOpenAI\<close> passes to the client (lines 118 to 130).\<close>

definition completionRequest :: "service \<Rightarrow> chat list \<Rightarrow> options \<Rightarrow> request" where
  "completionRequest svc msgs opts =
     \<lparr>rq_model = or_str (o_model opts) (defaultModel svc),
      rq_messages = msgs,
      rq_temperature = or_num (o_temperature opts) (temperature svc),
      rq_max_tokens = or_num (o_maxTokens opts) (maxTokens svc),
      rq_stream = False\<rparr>"

definition noClient :: jsstring where
  "noClient = js ''Cliente OpenAI no disponible''"

definition noResponse :: jsstring where
  "noResponse = js ''No se recibi'' @ [243] @ js '' respuesta de OpenAI''"

definition noApiKey :: jsstring where
  "noApiKey = js ''OPENAI_API_KEY no est'' @ [225] @ js '' definida en las variables de entorno''"

text \<open>
  \<open>Inl e\<close> is a thrown error of message \<open>e\<close>. \<open>cl\<close> is what the call
  \<^verbatim>\<open>openaiClient.getClient()\<close> does: it throws (\<open>Inl e\<close>; without an API key
  \<open>e\<close> is \<open>noApiKey\<close>, the error of \<^verbatim>\<open>initializeClient\<close>, and the constructor of
  the client may throw as well) or it returns the client (\<open>Inr\<close>). An error thrown by
  \<^verbatim>\<open>getClient\<close> leaves \<^verbatim>\<open>callOpenAI\<close> as it is. \<^verbatim>\<open>getClient\<close> returns a client
  whenever it returns; the test of \<^verbatim>\<open>callOpenAI\<close> for a missing one (\<open>Inr None\<close>) is
  kept as the source has it.
\<close>

definition callOpenAI ::
  "service \<Rightarrow> jsstring + client option \<Rightarrow> chat list \<Rightarrow> options \<Rightarrow> jsstring + jsstring" where
  "callOpenAI svc cl msgs opts =
     (case cl of
        Inl e \<Rightarrow> Inl e
      | Inr None \<Rightarrow> Inl noClient
      | Inr (Some create) \<Rightarrow>
          (case create (completionRequest svc msgs opts) of
             Fault e \<Rightarrow> Inl e
           | Response None \<Rightarrow> Inl noResponse
           | Response (Some c) \<Rightarrow> if c = [] then Inl noResponse else Inr (trim c)))"

record result =
  r_success :: bool
  r_message :: jsstring
  r_sessionId :: jsstring
  r_messageId :: jsstring
  r_timestamp :: int
  r_error :: "jsstring option"

text \<open>
  What the environment answers during one \<^verbatim>\<open>processMessage\<close>, by call site: the
  \<^verbatim>\<open>new Date()\<close> of \<^verbatim>\<open>createOrUpdateSession\<close> (line 31) and the reads of the
  \<^verbatim>\<open>createMessage\<close> of lines 34, 47 and 62. Each site runs at most once in a call.
\<close>

record reads =
  sessionNow :: int
  userReads :: msg_reads
  botReads :: msg_reads
  errorReads :: msg_reads

definition required :: jsstring where
  "required = js ''sessionId y userMessage son requeridos''"

definition apology :: jsstring where
  "apology = js ''Lo siento, ocurri'' @ [243] @
     js '' un error al procesar tu mensaje. Por favor, int'' @ [233] @ js ''ntalo de nuevo.''"

text \<open>
  The body of the \<^verbatim>\<open>try\<close> block: \<open>Inl e\<close> is the error thrown, with the store as
  it is then. The calls of the logger change neither the store nor the result and are
  left out.
\<close>

definition processMessage_try ::
  "service \<Rightarrow> jsstring + client option \<Rightarrow> jsstring option \<Rightarrow> reads \<Rightarrow> store \<Rightarrow> jsstring \<Rightarrow> jsstring
     \<Rightarrow> options
     \<Rightarrow> (jsstring + result) \<times> store" where
  "processMessage_try svc cl envPrompt rd st sessionId userMessage opts =
     (if sessionId = [] \<or> userMessage = [] then (Inl required, st)
      else
        let (session, st1) = createOrUpdateSession st sessionId [] (sessionNow rd);
            (userMsg, st2) = createMessage st1 (userReads rd) sessionId (js ''user'') userMessage [];
            sessionMessages = getSessionMessages st2 sessionId (Some 10);
            msgs = prepareMessagesForOpenAI envPrompt sessionMessages
        in case callOpenAI svc cl msgs opts of
             Inl e \<Rightarrow> (Inl e, st2)
           | Inr botResponse \<Rightarrow>
               (let (botMsg, st3) =
                      createMessage st2 (botReads rd) sessionId (js ''assistant'') botResponse []
                in (Inr \<lparr>r_success = True, r_message = botResponse, r_sessionId = sessionId,
                         r_messageId = m_id botMsg, r_timestamp = m_timestamp botMsg,
                         r_error = None\<rparr>, st3)))"

definition processMessage ::
  "service \<Rightarrow> jsstring + client option \<Rightarrow> jsstring option \<Rightarrow> reads \<Rightarrow> store \<Rightarrow> jsstring \<Rightarrow> jsstring
     \<Rightarrow> options
     \<Rightarrow> result \<times> store" where
  "processMessage svc cl envPrompt rd st sessionId userMessage opts =
     (case processMessage_try svc cl envPrompt rd st sessionId userMessage opts of
        (Inr res, st') \<Rightarrow> (res, st')
      | (Inl e, st') \<Rightarrow>
          (let (errorMsg, st'') =
                 createMessage st' (errorReads rd) sessionId (js ''assistant'') apology
                   [(js ''error'', VBool True), (js ''originalError'', VStr e)]
           in (\<lparr>r_success = False, r_message = apology, r_sessionId = sessionId,
                r_messageId = m_id errorMsg, r_timestamp = m_timestamp errorMsg,
                r_error = Some e\<rparr>, st'')))"

section \<open>Sanitizing and validating input (utils/sanitize.js)\<close>

text \<open>The class \<^verbatim>\<open>[\x00-\x1F\x7F]\<close>.\<close>

definition isControl :: "nat \<Rightarrow> bool" where
  "isControl c = (c \<le> 31 \<or> c = 127)"

text \<open>\<^verbatim>\<open>s.replace(/c/g, r)\<close> for a single character \<open>c\<close>.\<close>

definition replaceAll :: "nat \<Rightarrow> jsstring \<Rightarrow> jsstring \<Rightarrow> jsstring" where
  "replaceAll c r s = concat (map (\<lambda>x. if x = c then r else [x]) s)"

definition sanitizeString :: "jsval \<Rightarrow> jsstring" where
  "sanitizeString input =
     (case input of
        VStr s \<Rightarrow>
          replaceAll 47 (js ''&#x2F;'')
            (replaceAll 39 (js ''&#x27;'')
              (replaceAll 34 (js ''&quot;'')
                (replaceAll 62 (js ''&gt;'')
                  (replaceAll 60 (js ''&lt;'')
                    (replaceAll 38 (js ''&amp;'')
                      (filter (\<lambda>c. \<not> isControl c) (trim s)))))))
      | _ \<Rightarrow> [])"

text \<open>The six characters the sanitizer escapes: \<^verbatim>\<open>& < > " ' /\<close>.\<close>

definition special :: "nat set" where
  "special = {38, 60, 62, 34, 39, 47}"

record raw_options =
  raw_model :: jsval
  raw_temperature :: jsval
  raw_maxTokens :: jsval

definition allowedModels :: "jsstring list" where
  "allowedModels = [js ''gpt-4o-mini'', js ''gpt-4o'', js ''gpt-3.5-turbo'']"

text \<open>
  \<open>raw\<close> is \<open>None\<close> when the argument is falsy or no object; a key the object does
  not have reads \<open>VUndefined\<close>. The builtins \<^verbatim>\<open>parseFloat\<close> and \<^verbatim>\<open>parseInt\<close>
  are parameters.
\<close>

definition validateOptions ::
  "(jsval \<Rightarrow> jsnum) \<Rightarrow> (jsval \<Rightarrow> jsnum) \<Rightarrow> raw_options option \<Rightarrow> options" where
  "validateOptions parseFloat parseInt raw =
     (case raw of
        None \<Rightarrow> \<lparr>o_model = None, o_temperature = None, o_maxTokens = None\<rparr>
      | Some opts \<Rightarrow>
          \<lparr>o_model =
             (case raw_model opts of
                VStr m \<Rightarrow> if m \<noteq> [] \<and> m \<in> set allowedModels then Some m else None
              | _ \<Rightarrow> None),
           o_temperature =
             (if raw_temperature opts \<noteq> VUndefined
              then let temp = parseFloat (raw_temperature opts)
                   in if \<not> isNaN temp \<and> num_ge temp (Num 0) \<and> num_le temp (Num 2)
                      then Some temp else None
              else None),
           o_maxTokens =
             (if raw_maxTokens opts \<noteq> VUndefined
              then let tokens = parseInt (raw_maxTokens opts)
                   in if \<not> isNaN tokens \<and> num_gt tokens (Num 0) \<and> num_le tokens (Num 4000)
                      then Some tokens else None
              else None)\<rparr>)"

section \<open>The rate limiter by session (createSessionLimiter)\<close>

record sessionData =
  sd_count :: int
  sd_resetTime :: int

record limiter =
  lim_windowMs :: int
  lim_max :: int

text \<open>The two parameters, with their defaults; the \<^verbatim>\<open>Map\<close> of the closure starts empty.\<close>

definition createSessionLimiter :: "int option \<Rightarrow> int option \<Rightarrow> limiter" where
  "createSessionLimiter windowMs max0 =
     \<lparr>lim_windowMs = (case windowMs of None \<Rightarrow> 60000 | Some w \<Rightarrow> w),
      lim_max = (case max0 of None \<Rightarrow> 10 | Some m \<Rightarrow> m)\<rparr>"

record limiter_request =
  body_sessionId :: "jsstring option"
  query_sessionId :: "jsstring option"

record rejection =
  rej_status :: nat
  rej_error :: jsstring
  rej_retryAfter :: jsstring

datatype decision = Next | TooMany rejection

fun digits10 :: "nat \<Rightarrow> jsstring" where
  "digits10 n = (if n < 10 then [48 + n] else digits10 (n div 10) @ [48 + n mod 10])"

declare digits10.simps [simp del]

text \<open>The string of an integer, as \<^verbatim>\<open>n + ' segundos'\<close> makes it.\<close>

definition numberToString :: "int \<Rightarrow> jsstring" where
  "numberToString n = (if n < 0 then 45 # digits10 (nat (- n)) else digits10 (nat n))"

text \<open>\<^verbatim>\<open>Math.ceil(a / 1000)\<close> for an integer \<open>a\<close>.\<close>

definition ceilSeconds :: "int \<Rightarrow> int" where
  "ceilSeconds a = - ((- a) div 1000)"

definition tooManyText :: jsstring where
  "tooManyText = js ''Demasiados mensajes para esta sesi'' @ [243] @ js ''n, espera un momento''"

text \<open>
  The middleware: \<open>tbl\<close> is the \<^verbatim>\<open>Map\<close> of the closure, \<open>now\<close> is \<^verbatim>\<open>Date.now()\<close>.
  \<open>Next\<close> is the call of \<^verbatim>\<open>next()\<close>, \<open>TooMany\<close> the 429 response.
\<close>

definition sessionLimiter ::
  "limiter \<Rightarrow> (jsstring \<rightharpoonup> sessionData) \<Rightarrow> limiter_request \<Rightarrow> int
     \<Rightarrow> decision \<times> (jsstring \<rightharpoonup> sessionData)" where
  "sessionLimiter cfg tbl req now =
     (let sessionId = or_str (body_sessionId req) (or_str (query_sessionId req) [])
      in if sessionId = [] then (Next, tbl)
         else case tbl sessionId of
           None \<Rightarrow>
             (Next, tbl(sessionId \<mapsto> \<lparr>sd_count = 1, sd_resetTime = now + lim_windowMs cfg\<rparr>))
         | Some sessionData \<Rightarrow>
             if now > sd_resetTime sessionData
             then (Next, tbl(sessionId \<mapsto> \<lparr>sd_count = 1, sd_resetTime = now + lim_windowMs cfg\<rparr>))
             else if sd_count sessionData \<ge> lim_max cfg
             then (TooMany \<lparr>rej_status = 429, rej_error = tooManyText,
                     rej_retryAfter = numberToString (ceilSeconds (sd_resetTime sessionData - now))
                                        @ js '' segundos''\<rparr>, tbl)
             else (Next, tbl(sessionId \<mapsto> sessionData\<lparr>sd_count := sd_count sessionData + 1\<rparr>)))"

text \<open>A sequence of requests through one limiter, each with the time it arrives at.\<close>

fun runLimiter ::
  "limiter \<Rightarrow> (jsstring \<rightharpoonup> sessionData) \<Rightarrow> (limiter_request \<times> int) list \<Rightarrow> decision list" where
  "runLimiter cfg tbl [] = []"
| "runLimiter cfg tbl ((req, now) # rest) =
     (let (d, tbl') = sessionLimiter cfg tbl req now in d # runLimiter cfg tbl' rest)"

section \<open>Notions the properties are stated with\<close>

text \<open>
  The store when \<^verbatim>\<open>processMessage\<close> assembles the context (after lines 31 and 34), and
  the request it then hands to the client.
\<close>

definition userSaved :: "reads \<Rightarrow> store \<Rightarrow> jsstring \<Rightarrow> jsstring \<Rightarrow> store" where
  "userSaved rd st sessionId userMessage =
     snd (createMessage (snd (createOrUpdateSession st sessionId [] (sessionNow rd)))
            (userReads rd) sessionId (js ''user'') userMessage [])"

definition sentRequest ::
  "service \<Rightarrow> jsstring option \<Rightarrow> reads \<Rightarrow> store \<Rightarrow> jsstring \<Rightarrow> jsstring \<Rightarrow> options \<Rightarrow> request" where
  "sentRequest svc envPrompt rd st sessionId userMessage opts =
     completionRequest svc
       (prepareMessagesForOpenAI envPrompt
          (getSessionMessages (userSaved rd st sessionId userMessage) sessionId (Some 10)))
       opts"

text \<open>
  One call that writes the store. Every write of the repository goes through
  \<^verbatim>\<open>createOrUpdateSession\<close>, \<^verbatim>\<open>createMessage\<close> or \<^verbatim>\<open>deleteSession\<close>, and each
  of them runs to its end once called. \<^verbatim>\<open>processMessage\<close> is no step of its own: it
  awaits the client between its calls of \<^verbatim>\<open>createMessage\<close>, and other handlers
  (a \<^verbatim>\<open>deleteSession\<close> for the same session, say) may run meanwhile. The step of
  \<^verbatim>\<open>createMessage\<close> is for a session that exists at the call.
\<close>

inductive step :: "store \<Rightarrow> store \<Rightarrow> bool" where
  ensure: "step st (snd (createOrUpdateSession st sessionId context0 now))"
| append: "sessions st sessionId \<noteq> None \<Longrightarrow>
     step st (snd (createMessage st rd sessionId r c metadata))"
| delete: "step st (snd (deleteSession st sessionId))"

text \<open>The stores such calls reach from the empty one, in any order.\<close>

inductive reachable :: "store \<Rightarrow> bool" where
  init: "reachable empty_store"
| onward: "reachable st \<Longrightarrow> step st st' \<Longrightarrow> reachable st'"

text \<open>
  Every message of a session's sequence names that session; a message is stored under
  its own id; every stored message is in the sequence of the session it names.
\<close>

definition store_inv :: "store \<Rightarrow> bool" where
  "store_inv st \<longleftrightarrow>
     (\<forall>sid s m. sessions st sid = Some s \<longrightarrow> m \<in> set (s_messages s) \<longrightarrow> m_sessionId m = sid)
   \<and> (\<forall>k m. messages st k = Some m \<longrightarrow> m_id m = k)
   \<and> (\<forall>k m. messages st k = Some m \<longrightarrow>
         (\<exists>s. sessions st (m_sessionId m) = Some s \<and> m \<in> set (s_messages s)))"

subsection \<open>Concrete data for the examples\<close>

definition readsAt :: "int \<Rightarrow> msg_reads" where
  "readsAt t = \<lparr>idNow = t, idRandom = js ''k3f'', created = t, appended = t\<rparr>"

definition demo_reads :: reads where
  "demo_reads = \<lparr>sessionNow = 1000, userReads = readsAt 1001, botReads = readsAt 1002,
                  errorReads = readsAt 1003\<rparr>"

definition demo_service :: service where
  "demo_service = ChatService None NaN NaN"

definition no_options :: options where
  "no_options = \<lparr>o_model = None, o_temperature = None, o_maxTokens = None\<rparr>"

definition failingClient :: client where
  "failingClient req = Fault (js ''boom'')"


definition demo_session :: store where
  "demo_session = snd (createOrUpdateSession empty_store (js ''s1'') [] 1000)"

definition demo_calls :: "(msg_reads \<times> jsstring \<times> jsstring \<times> bag) list" where
  "demo_calls = [(readsAt 1001, js ''user'', js ''a'', []),
                 (readsAt 1002, js ''assistant'', js ''b'', []),
                 (readsAt 1003, js ''user'', js ''c'', [])]"

definition demo_store :: store where
  "demo_store = snd (createMessages demo_session (js ''s1'') demo_calls)"

definition orphan :: "message \<times> store" where
  "orphan = createMessage empty_store (readsAt 1000) (js ''ghost'') (js ''user'') (js ''hi'') []"

section \<open>Literals\<close>

lemma js_eq_iff [simp]: "js s = js t \<longleftrightarrow> s = t"
  by (simp add: js_def inj_map_eq_map[OF inj_of_char])

lemma js_Nil_iff [simp]: "js s = [] \<longleftrightarrow> s = []" and Nil_js_iff [simp]: "[] = js s \<longleftrightarrow> s = []"
  by (auto simp: js_def)

section \<open>Properties of the store\<close>

lemma slice_last:
  "0 < l \<Longrightarrow> slice_from xs (- l) = drop (length xs - nat l) xs"
  by (auto simp: slice_from_def Let_def max_def intro!: arg_cong2[where f=drop])

lemma createMessage_existing:
  "sessions st sid = Some s \<Longrightarrow>
   createMessage st rd sid r c md =
     (\<lparr>m_id = generateId (idNow rd) (idRandom rd), m_sessionId = sid, m_role = r,
        m_content = c, m_timestamp = created rd, m_metadata = md\<rparr>,
      \<lparr>sessions = (sessions st)(sid \<mapsto> s\<lparr>s_messages := s_messages s @
           [\<lparr>m_id = generateId (idNow rd) (idRandom rd), m_sessionId = sid, m_role = r,
        m_content = c, m_timestamp = created rd, m_metadata = md\<rparr>], s_lastActivity := appended rd\<rparr>),
       messages = (messages st)(generateId (idNow rd) (idRandom rd) \<mapsto> \<lparr>m_id = generateId (idNow rd) (idRandom rd), m_sessionId = sid, m_role = r,
        m_content = c, m_timestamp = created rd, m_metadata = md\<rparr>)\<rparr>)"
  by (simp add: createMessage_def addMessageToSession_def Let_def)

lemma createMessage_absent:
  "sessions st sid = None \<Longrightarrow>
   createMessage st rd sid r c md =
     (\<lparr>m_id = generateId (idNow rd) (idRandom rd), m_sessionId = sid, m_role = r,
        m_content = c, m_timestamp = created rd, m_metadata = md\<rparr>,
      st\<lparr>messages := (messages st)(generateId (idNow rd) (idRandom rd) \<mapsto> \<lparr>m_id = generateId (idNow rd) (idRandom rd), m_sessionId = sid, m_role = r,
        m_content = c, m_timestamp = created rd, m_metadata = md\<rparr>)\<rparr>)"
  by (simp add: createMessage_def addMessageToSession_def Let_def)

lemma foldl_remove:
  "foldl (\<lambda>mm msg. mm(m_id msg := None)) mm xs k = (if k \<in> m_id ` set xs then None else mm k)"
  by (induction xs arbitrary: mm) auto

lemma store_invI:
  assumes "\<And>sid s m. sessions st sid = Some s \<Longrightarrow> m \<in> set (s_messages s) \<Longrightarrow> m_sessionId m = sid"
      and "\<And>k m. messages st k = Some m \<Longrightarrow> m_id m = k"
      and "\<And>k m. messages st k = Some m \<Longrightarrow>
             \<exists>s. sessions st (m_sessionId m) = Some s \<and> m \<in> set (s_messages s)"
  shows "store_inv st"
  using assms unfolding store_inv_def by blast

lemma inv_named:
  "store_inv st \<Longrightarrow> sessions st sid = Some s \<Longrightarrow> m \<in> set (s_messages s) \<Longrightarrow> m_sessionId m = sid"
  unfolding store_inv_def by blast

lemma inv_key: "store_inv st \<Longrightarrow> messages st k = Some m \<Longrightarrow> m_id m = k"
  unfolding store_inv_def by blast

lemma inv_owner:
  "store_inv st \<Longrightarrow> messages st k = Some m \<Longrightarrow>
     \<exists>s. sessions st (m_sessionId m) = Some s \<and> m \<in> set (s_messages s)"
  unfolding store_inv_def by blast

lemma inv_empty: "store_inv empty_store"
  by (simp add: store_inv_def empty_store_def)

lemma createOrUpdateSession_sessions:
  "sessions (snd (createOrUpdateSession st sid c now)) k =
     (if k = sid
      then Some (case sessions st sid of
                   Some e \<Rightarrow> e\<lparr>s_lastActivity := now\<rparr>
                 | None \<Rightarrow> \<lparr>s_sessionId = sid, s_createdAt = now, s_lastActivity = now,
                            s_messages = [], s_context = c\<rparr>)
      else sessions st k)"
  by (simp add: createOrUpdateSession_def Let_def split: option.splits)

lemma createOrUpdateSession_messages:
  "messages (snd (createOrUpdateSession st sid c now)) = messages st"
  by (simp add: createOrUpdateSession_def Let_def split: option.splits)

lemma inv_ensure:
  assumes "store_inv st"
  shows "store_inv (snd (createOrUpdateSession st sid c now))"
proof (rule store_invI)
  fix k s m
  assume "sessions (snd (createOrUpdateSession st sid c now)) k = Some s" "m \<in> set (s_messages s)"
  then show "m_sessionId m = k"
    using inv_named[OF assms]
    by (auto simp: createOrUpdateSession_sessions split: if_splits option.splits)
next
  fix k m
  assume "messages (snd (createOrUpdateSession st sid c now)) k = Some m"
  then show "m_id m = k"
    using inv_key[OF assms] by (simp add: createOrUpdateSession_messages)
next
  fix k m
  assume "messages (snd (createOrUpdateSession st sid c now)) k = Some m"
  then have "messages st k = Some m" by (simp add: createOrUpdateSession_messages)
  from inv_owner[OF assms this] obtain s where "sessions st (m_sessionId m) = Some s" "m \<in> set (s_messages s)"
    by blast
  then show "\<exists>s. sessions (snd (createOrUpdateSession st sid c now)) (m_sessionId m) = Some s
                \<and> m \<in> set (s_messages s)"
    by (auto simp: createOrUpdateSession_sessions)
qed

lemma inv_append:
  assumes "store_inv st" "sessions st sid \<noteq> None"
  shows "store_inv (snd (createMessage st rd sid r c md))"
proof -
  from assms(2) obtain s where s: "sessions st sid = Some s" by auto
  define new where "new = \<lparr>m_id = generateId (idNow rd) (idRandom rd), m_sessionId = sid, m_role = r,
        m_content = c, m_timestamp = created rd, m_metadata = md\<rparr>"
  have ses: "sessions (snd (createMessage st rd sid r c md)) =
         (sessions st)(sid \<mapsto> s\<lparr>s_messages := s_messages s @ [new], s_lastActivity := appended rd\<rparr>)"
   and msg: "messages (snd (createMessage st rd sid r c md)) = (messages st)(m_id new \<mapsto> new)"
    by (simp_all add: createMessage_existing[OF s] new_def)
  show ?thesis
  proof (rule store_invI)
    fix k s' m
    assume "sessions (snd (createMessage st rd sid r c md)) k = Some s'" "m \<in> set (s_messages s')"
    then show "m_sessionId m = k"
      using inv_named[OF assms(1)] s
      by (auto simp: ses new_def split: if_splits)
  next
    fix k m
    assume "messages (snd (createMessage st rd sid r c md)) k = Some m"
    then show "m_id m = k"
      using inv_key[OF assms(1)] by (auto simp: msg split: if_splits)
  next
    fix k m
    assume a: "messages (snd (createMessage st rd sid r c md)) k = Some m"
    show "\<exists>s'. sessions (snd (createMessage st rd sid r c md)) (m_sessionId m) = Some s'
                \<and> m \<in> set (s_messages s')"
    proof (cases "m = new")
      case True
      then show ?thesis by (simp add: ses new_def)
    next
      case False
      with a have "messages st k = Some m" by (auto simp: msg split: if_splits)
      from inv_owner[OF assms(1) this] obtain s0 where
        "sessions st (m_sessionId m) = Some s0" "m \<in> set (s_messages s0)" by blast
      then show ?thesis using s by (auto simp: ses)
    qed
  qed
qed

lemma inv_delete:
  assumes "store_inv st"
  shows "store_inv (snd (deleteSession st sid))"
proof (cases "sessions st sid")
  case None
  then show ?thesis using assms by (simp add: deleteSession_def)
next
  case (Some s)
  have ses: "sessions (snd (deleteSession st sid)) = (sessions st)(sid := None)"
   and msg: "\<And>k. messages (snd (deleteSession st sid)) k =
               (if k \<in> m_id ` set (s_messages s) then None else messages st k)"
    by (simp_all add: deleteSession_def Some foldl_remove)
  show ?thesis
  proof (rule store_invI)
    fix k s' m
    assume "sessions (snd (deleteSession st sid)) k = Some s'" "m \<in> set (s_messages s')"
    then show "m_sessionId m = k"
      using inv_named[OF assms] by (auto simp: ses split: if_splits)
  next
    fix k m
    assume "messages (snd (deleteSession st sid)) k = Some m"
    then show "m_id m = k"
      using inv_key[OF assms] by (auto simp: msg split: if_splits)
  next
    fix k m
    assume a: "messages (snd (deleteSession st sid)) k = Some m"
    then have old: "messages st k = Some m" and notin: "k \<notin> m_id ` set (s_messages s)"
      by (auto simp: msg split: if_splits)
    from inv_owner[OF assms old] obtain s0 where
      s0: "sessions st (m_sessionId m) = Some s0" "m \<in> set (s_messages s0)" by blast
    have "m_id m = k" using inv_key[OF assms old] .
    with notin have "m \<notin> set (s_messages s)" by auto
    with s0 Some have "m_sessionId m \<noteq> sid" by auto
    with s0 show "\<exists>s'. sessions (snd (deleteSession st sid)) (m_sessionId m) = Some s'
                \<and> m \<in> set (s_messages s')"
      by (auto simp: ses)
  qed
qed


lemma createMessages_existing:
  "sessions st sid = Some s \<Longrightarrow>
     fst (createMessages st sid calls) =
       map (\<lambda>(rd, r, c, md). fst (createMessage st rd sid r c md)) calls
     \<and> (\<exists>t. sessions (snd (createMessages st sid calls)) sid =
           Some (s\<lparr>s_messages := s_messages s @ fst (createMessages st sid calls),
                   s_lastActivity := t\<rparr>))"
proof (induction calls arbitrary: st s)
  case Nil
  then show ?case by (auto intro: exI[of _ "s_lastActivity s"])
next
  case (Cons a calls)
  obtain rd r c md where a: "a = (rd, r, c, md)" by (cases a)
  define new where "new = fst (createMessage st rd sid r c md)"
  define st1 where "st1 = snd (createMessage st rd sid r c md)"
  have s1: "sessions st1 sid = Some (s\<lparr>s_messages := s_messages s @ [new], s_lastActivity := appended rd\<rparr>)"
    by (simp add: st1_def new_def createMessage_existing[OF Cons.prems])
  have same: "\<And>rd' r' c' md'. fst (createMessage st1 rd' sid r' c' md') = fst (createMessage st rd' sid r' c' md')"
    by (simp add: createMessage_def Let_def)
  have unf: "createMessages st sid (a # calls) =
      (new # fst (createMessages st1 sid calls), snd (createMessages st1 sid calls))"
    by (simp add: a new_def st1_def split: prod.splits)
  from Cons.IH[OF s1] show ?case
    unfolding unf by (auto simp: same a new_def)
qed


lemma processMessage_try_valid:
  assumes "sessionId \<noteq> []" "userMessage \<noteq> []"
  shows "processMessage_try svc cl envPrompt rd st sessionId userMessage opts =
     (case callOpenAI svc cl (prepareMessagesForOpenAI envPrompt
              (getSessionMessages (userSaved rd st sessionId userMessage) sessionId (Some 10))) opts of
        Inl e \<Rightarrow> (Inl e, userSaved rd st sessionId userMessage)
      | Inr botResponse \<Rightarrow>
          (Inr \<lparr>r_success = True, r_message = botResponse, r_sessionId = sessionId,
                r_messageId = m_id (fst (createMessage (userSaved rd st sessionId userMessage)
                   (botReads rd) sessionId (js ''assistant'') botResponse [])),
                r_timestamp = m_timestamp (fst (createMessage (userSaved rd st sessionId userMessage)
                   (botReads rd) sessionId (js ''assistant'') botResponse [])),
                r_error = None\<rparr>,
           snd (createMessage (userSaved rd st sessionId userMessage)
                   (botReads rd) sessionId (js ''assistant'') botResponse [])))"
  using assms
  by (simp add: processMessage_try_def userSaved_def Let_def split: prod.splits sum.splits)

lemma userSaved_session:
  "\<exists>s. sessions (userSaved rd st sessionId userMessage) sessionId = Some s"
proof -
  obtain s0 where "sessions (snd (createOrUpdateSession st sessionId [] (sessionNow rd))) sessionId = Some s0"
    by (simp add: createOrUpdateSession_sessions)
  then show ?thesis
    by (simp add: userSaved_def createMessage_existing)
qed

lemma inv_userSaved:
  assumes "store_inv st"
  shows "store_inv (userSaved rd st sessionId userMessage)"
  unfolding userSaved_def
  by (rule inv_append[OF inv_ensure[OF assms]]) (simp add: createOrUpdateSession_sessions)

lemma inv_step: "step st st' \<Longrightarrow> store_inv st \<Longrightarrow> store_inv st'"
  by (induction rule: step.induct) (simp_all add: inv_ensure inv_append inv_delete)

lemma reachable_inv: "reachable st \<Longrightarrow> store_inv st"
  by (induction rule: reachable.induct) (simp_all add: inv_empty inv_step)

text \<open>
  The part of \<^verbatim>\<open>processMessage\<close> before it awaits the client is two such calls: the
  session is there when the user message is created.
\<close>

lemma reachable_userSaved:
  assumes "reachable st"
  shows "reachable (userSaved rd st sessionId userMessage)"
  unfolding userSaved_def
  by (rule reachable.onward[OF reachable.onward[OF assms step.ensure] step.append])
     (simp add: createOrUpdateSession_sessions)

text \<open>
  While a session exists, a step leaves the messages of its sequence in place and adds
  at most one at the end.
\<close>

lemma step_keeps_messages:
  assumes "step st st'" and "sessions st sid = Some s" and "sessions st' sid = Some s'"
  shows "take (length (s_messages s)) (s_messages s') = s_messages s"
  using assms
proof (induction rule: step.induct)
  case (ensure st sessionId context0 now)
  then show ?case
    by (auto simp: createOrUpdateSession_sessions split: if_splits)
next
  case (append st sessionId rd r c metadata)
  then obtain s0 where s0: "sessions st sessionId = Some s0" by auto
  from append s0 show ?case
    by (auto simp: createMessage_existing[OF s0] split: if_splits)
next
  case (delete st sessionId)
  then show ?case
    by (auto simp: deleteSession_def split: option.splits if_splits)
qed

lemma createMessage_dom_sessions:
  "dom (sessions (snd (createMessage st rd sid r c md))) = dom (sessions st)"
  by (auto simp: createMessage_def addMessageToSession_def Let_def split: option.splits if_splits)

lemma demo_session_eq:
  "sessions demo_session (js ''s1'') =
     Some \<lparr>s_sessionId = js ''s1'', s_createdAt = 1000, s_lastActivity = 1000,
            s_messages = [], s_context = []\<rparr>"
  by (simp add: demo_session_def createOrUpdateSession_def empty_store_def Let_def)

lemma reachable_demo: "reachable demo_session"
  unfolding demo_session_def by (rule reachable.onward[OF reachable.init step.ensure])

text \<open>
  C5 (as amended). A message is immutable after creation and stays with its session: a
  call that writes the store leaves the messages of the sequence of a session that
  exists before and after it in place, and only appends to it. In every store reached
  from the empty one by calls of \<^verbatim>\<open>createOrUpdateSession\<close>, \<^verbatim>\<open>deleteSession\<close> and
  \<^verbatim>\<open>createMessage\<close>, each \<^verbatim>\<open>createMessage\<close> for a session that exists at the call,
  every message of the message collection is in the message sequence of the session
  its \<open>sessionId\<close> names, and in the sequence of no other session.
  \<^verbatim>\<open>createMessage\<close> never creates a session.
\<close>

theorem stored_message_in_one_session:
  assumes "reachable st" and "messages st k = Some m"
  shows "(\<exists>s. sessions st (m_sessionId m) = Some s \<and> m \<in> set (s_messages s))
       \<and> (\<forall>sid s. sessions st sid = Some s \<longrightarrow> m \<in> set (s_messages s) \<longrightarrow> sid = m_sessionId m)
       \<and> (\<forall>st' sid s s'. step st st' \<longrightarrow> sessions st sid = Some s \<longrightarrow> sessions st' sid = Some s' \<longrightarrow>
              take (length (s_messages s)) (s_messages s') = s_messages s)
       \<and> dom (sessions (snd (createMessage st0 rd sid0 r c md))) = dom (sessions st0)"
  using inv_owner[OF reachable_inv[OF assms(1)] assms(2)] inv_named[OF reachable_inv[OF assms(1)]]
    step_keeps_messages createMessage_dom_sessions[of st0 rd sid0 r c md]
  by blast

theorem stored_message_in_one_session_witness:
  "reachable (snd (createMessage demo_session (readsAt 1001) (js ''s1'') (js ''user'') (js ''a'') []))
   \<and> messages (snd (createMessage demo_session (readsAt 1001) (js ''s1'') (js ''user'') (js ''a'') []))
        (m_id (fst (createMessage demo_session (readsAt 1001) (js ''s1'') (js ''user'') (js ''a'') [])))
       = Some (fst (createMessage demo_session (readsAt 1001) (js ''s1'') (js ''user'') (js ''a'') []))
   \<and> (\<exists>s. sessions (snd (createMessage demo_session (readsAt 1001) (js ''s1'') (js ''user'') (js ''a'') []))
             (js ''s1'') = Some s
          \<and> fst (createMessage demo_session (readsAt 1001) (js ''s1'') (js ''user'') (js ''a'') [])
              \<in> set (s_messages s))"
proof -
  let ?c = "createMessage demo_session (readsAt 1001) (js ''s1'') (js ''user'') (js ''a'') []"
  have r: "reachable (snd ?c)"
    by (rule reachable.onward[OF reachable_demo step.append]) (use demo_session_eq in simp)
  have m: "messages (snd ?c) (m_id (fst ?c)) = Some (fst ?c)"
    by (simp add: createMessage_existing[OF demo_session_eq])
  have sid: "m_sessionId (fst ?c) = js ''s1''"
    by (simp add: createMessage_def Let_def)
  from stored_message_in_one_session[OF r m] r m sid show ?thesis by auto
qed

text \<open>
  C5 as stated fails: \<^verbatim>\<open>createMessage\<close> for a session id that has no session puts the
  message into the message collection and into no sequence (\<^verbatim>\<open>addMessageToSession\<close>
  does nothing then).
\<close>

theorem createMessage_without_session_orphan:
  "messages (snd orphan) (m_id (fst orphan)) = Some (fst orphan)
   \<and> m_sessionId (fst orphan) = js ''ghost''
   \<and> sessions (snd orphan) (js ''ghost'') = None
   \<and> getSessionMessages (snd orphan) (js ''ghost'') None = []"
  by (simp add: orphan_def createMessage_def addMessageToSession_def empty_store_def Let_def
       getSessionMessages_def)

text \<open>
  C6. After \<open>calls\<close> have appended their messages to a session, asking for the last
  \<open>n\<close> messages, with \<open>n\<close> positive and below the number of messages the session
  holds, returns exactly the last \<open>n\<close> of them in the order of insertion; and for a
  session id without a session the answer is the empty sequence.
\<close>

theorem getSessionMessages_last_n:
  assumes "sessions st sid = Some s"
      and "0 < n" and "n < length (s_messages s) + length calls"
  shows "(let (ms, st') = createMessages st sid calls; stored = s_messages s @ ms
          in length ms = length calls
           \<and> map m_content ms = map (\<lambda>(rd, r, c, md). c) calls
           \<and> getSessionMessages st' sid None = stored
           \<and> getSessionMessages st' sid (Some (int n)) = drop (length stored - n) stored
           \<and> length (getSessionMessages st' sid (Some (int n))) = n)
       \<and> (sessions st0 other = None \<longrightarrow> getSessionMessages st0 other limit = [])"
proof -
  obtain ms st' where c: "createMessages st sid calls = (ms, st')"
    by (cases "createMessages st sid calls")
  from createMessages_existing[OF assms(1), of calls] c
  obtain t where ms: "ms = map (\<lambda>(rd, r, c, md). fst (createMessage st rd sid r c md)) calls"
    and st': "sessions st' sid = Some (s\<lparr>s_messages := s_messages s @ ms, s_lastActivity := t\<rparr>)"
    by auto
  have len: "length ms = length calls" by (simp add: ms)
  have cnt: "map m_content ms = map (\<lambda>(rd, r, c, md). c) calls"
    by (auto simp: ms createMessage_def Let_def)
  show ?thesis using assms(2,3) len cnt
    by (auto simp: c getSessionMessages_def st' slice_last Let_def)
qed

theorem getSessionMessages_last_n_witness:
  "sessions demo_session (js ''s1'') \<noteq> None
   \<and> map m_content (getSessionMessages (snd (createMessages demo_session (js ''s1'') demo_calls))
          (js ''s1'') (Some 2)) = [js ''b'', js ''c'']
   \<and> getSessionMessages empty_store (js ''nobody'') (Some 2) = []"
proof -
  have e: "sessions empty_store (js ''nobody'') = None" by (simp add: empty_store_def)
  have l: "(2::nat) < length (s_messages \<lparr>s_sessionId = js ''s1'', s_createdAt = 1000,
      s_lastActivity = 1000, s_messages = [], s_context = []\<rparr>) + length demo_calls"
    by (simp add: demo_calls_def)
  from getSessionMessages_last_n[OF demo_session_eq _ l, of empty_store "js ''nobody''" "Some 2"]
    e demo_session_eq
  show ?thesis
    by (simp add: case_prod_unfold Let_def demo_calls_def drop_map)
qed

lemma demo_three:
  "getSessionMessages (snd (createMessages demo_session (js ''s1'') demo_calls)) (js ''s1'') None
     = fst (createMessages demo_session (js ''s1'') demo_calls)"
  using createMessages_existing[OF demo_session_eq, of demo_calls]
  by (auto simp: getSessionMessages_def)

lemma demo_store_messages:
  "getSessionMessages demo_store (js ''s1'') None = fst (createMessages demo_session (js ''s1'') demo_calls)"
  unfolding demo_store_def by (rule demo_three)

lemma demo_contents:
  "map m_content (fst (createMessages demo_session (js ''s1'') demo_calls)) = [js ''a'', js ''b'', js ''c'']"
  by (simp add: demo_calls_def createMessage_def Let_def case_prod_unfold)

text \<open>
  C7 (as amended). Two calls of \<^verbatim>\<open>createOrUpdateSession\<close> with the same id: the
  first returns the session stored before it, or a new one with no messages; the second
  returns the session the first left in the store. Both hold the message sequence the
  store had for the id before the first call, and nothing else of the store changes.
  \<open>lastActivity\<close> is the time each call reads, so it does not decrease from the
  first call to the second exactly when the clock has not gone back in between. The
  function is total.
\<close>

theorem createOrUpdateSession_twice:
  "(let (s1, st1) = createOrUpdateSession st sid c1 t1;
        (s2, st2) = createOrUpdateSession st1 sid c2 t2
    in sessions st1 sid = Some s1
     \<and> sessions st2 sid = Some s2
     \<and> s2 = s1\<lparr>s_lastActivity := t2\<rparr>
     \<and> s_messages s1 = getSessionMessages st sid None
     \<and> s_messages s2 = getSessionMessages st sid None
     \<and> s_lastActivity s1 = t1
     \<and> s_lastActivity s2 = t2
     \<and> (s_lastActivity s1 \<le> s_lastActivity s2 \<longleftrightarrow> t1 \<le> t2)
     \<and> (case sessions st sid of
          Some s0 \<Rightarrow> s1 = s0\<lparr>s_lastActivity := t1\<rparr>
        | None \<Rightarrow> s1 = \<lparr>s_sessionId = sid, s_createdAt = t1, s_lastActivity = t1,
                          s_messages = [], s_context = c1\<rparr>)
     \<and> messages st2 = messages st
     \<and> (\<forall>k. k \<noteq> sid \<longrightarrow> sessions st2 k = sessions st k))"
  by (auto simp: createOrUpdateSession_def getSessionMessages_def Let_def split: option.splits)

theorem createOrUpdateSession_twice_witness:
  "map m_content (getSessionMessages demo_store (js ''s1'') None) = [js ''a'', js ''b'', js ''c'']
   \<and> map m_content (s_messages (fst (createOrUpdateSession
         (snd (createOrUpdateSession demo_store (js ''s1'') [] 2000)) (js ''s1'') [] 3000)))
       = [js ''a'', js ''b'', js ''c'']
   \<and> s_lastActivity (fst (createOrUpdateSession
         (snd (createOrUpdateSession demo_store (js ''s1'') [] 2000)) (js ''s1'') [] 3000)) = 3000"
  using createOrUpdateSession_twice[of demo_store "js ''s1''" "[]" 2000 "[]" 3000] demo_contents
  by (simp add: case_prod_unfold Let_def demo_store_messages)

text \<open>
  C7 as stated fails when the clock is set back between the two calls: the second call
  writes the earlier time, there is no maximum with the time stored.
\<close>

theorem lastActivity_clock_set_back:
  "s_lastActivity (fst (createOrUpdateSession empty_store (js ''s1'') [] 2000)) = 2000
   \<and> s_lastActivity (fst (createOrUpdateSession
         (snd (createOrUpdateSession empty_store (js ''s1'') [] 2000)) (js ''s1'') [] 1000)) = 1000"
  by (simp add: createOrUpdateSession_def empty_store_def Let_def)

text \<open>
  C10. For a session that exists, \<^verbatim>\<open>getSessionMessages\<close> with limit \<open>0\<close> returns the
  whole message sequence of the session, as it does with no limit.
\<close>

theorem getSessionMessages_limit_zero:
  assumes "sessions st sid = Some s"
  shows "getSessionMessages st sid (Some 0) = s_messages s
       \<and> length (getSessionMessages st sid (Some 0)) = length (s_messages s)
       \<and> getSessionMessages st sid None = s_messages s"
  using assms by (simp add: getSessionMessages_def)

theorem getSessionMessages_limit_zero_witness:
  "map m_content (getSessionMessages
      (snd (createMessage demo_session (readsAt 1001) (js ''s1'') (js ''user'') (js ''a'') []))
      (js ''s1'') (Some 0)) = [js ''a'']"
proof -
  let ?st = "snd (createMessage demo_session (readsAt 1001) (js ''s1'') (js ''user'') (js ''a'') [])"
  have s: "sessions ?st (js ''s1'') =
      Some \<lparr>s_sessionId = js ''s1'', s_createdAt = 1000, s_lastActivity = appended (readsAt 1001),
             s_messages = [fst (createMessage demo_session (readsAt 1001) (js ''s1'') (js ''user'')
                                  (js ''a'') [])],
             s_context = []\<rparr>"
    by (simp add: createMessage_existing[OF demo_session_eq])
  from getSessionMessages_limit_zero[OF s] show ?thesis
    by (simp add: createMessage_def Let_def)
qed

section \<open>Properties of the conversation service\<close>




lemma callOpenAI_failure:
  assumes "create (completionRequest svc msgs opts) = Fault e
         \<or> (create (completionRequest svc msgs opts) \<in> {Response None, Response (Some [])} \<and> e = noResponse)"
  shows "callOpenAI svc (Inr (Some create)) msgs opts = Inl e"
  using assms by (auto simp: callOpenAI_def)

lemma processMessage_failure:
  assumes "sessionId \<noteq> []" "userMessage \<noteq> []"
      and "callOpenAI svc cl (prepareMessagesForOpenAI envPrompt
              (getSessionMessages (userSaved rd st sessionId userMessage) sessionId (Some 10))) opts = Inl e"
  shows "processMessage svc cl envPrompt rd st sessionId userMessage opts =
     (\<lparr>r_success = False, r_message = apology, r_sessionId = sessionId,
       r_messageId = generateId (idNow (errorReads rd)) (idRandom (errorReads rd)),
       r_timestamp = created (errorReads rd), r_error = Some e\<rparr>,
      snd (createMessage (userSaved rd st sessionId userMessage) (errorReads rd) sessionId
             (js ''assistant'') apology [(js ''error'', VBool True), (js ''originalError'', VStr e)]))"
  unfolding processMessage_def processMessage_try_valid[OF assms(1,2)] assms(3)
  by (simp add: case_prod_unfold Let_def createMessage_def)

lemma errorMessage_persisted:
  fixes rd st sessionId userMessage e
  defines "st' \<equiv> snd (createMessage (userSaved rd st sessionId userMessage) (errorReads rd) sessionId
             (js ''assistant'') apology [(js ''error'', VBool True), (js ''originalError'', VStr e)])"
  defines "errorMsg \<equiv> \<lparr>m_id = generateId (idNow (errorReads rd)) (idRandom (errorReads rd)),
              m_sessionId = sessionId, m_role = js ''assistant'', m_content = apology,
              m_timestamp = created (errorReads rd),
              m_metadata = [(js ''error'', VBool True), (js ''originalError'', VStr e)]\<rparr>"
  shows "getSessionMessages st' sessionId None \<noteq> []"
    and "last (getSessionMessages st' sessionId None) = errorMsg"
    and "messages st' (m_id errorMsg) = Some errorMsg"
proof -
  obtain s where s: "sessions (userSaved rd st sessionId userMessage) sessionId = Some s"
    using userSaved_session by blast
  show "getSessionMessages st' sessionId None \<noteq> []"
    and "last (getSessionMessages st' sessionId None) = errorMsg"
    and "messages st' (m_id errorMsg) = Some errorMsg"
    by (simp_all add: st'_def errorMsg_def createMessage_existing[OF s] getSessionMessages_def)
qed

lemma demo_fault:
  "failingClient (sentRequest demo_service None demo_reads empty_store (js ''s1'') (js ''hello'') no_options)
     = Fault (js ''boom'')"
  by (simp add: failingClient_def)




lemma processMessage_getClient_throws:
  assumes "sessionId \<noteq> []" "userMessage \<noteq> []"
  shows "fst (processMessage svc (Inl e) envPrompt rd st sessionId userMessage opts) =
     \<lparr>r_success = False, r_message = apology, r_sessionId = sessionId,
       r_messageId = generateId (idNow (errorReads rd)) (idRandom (errorReads rd)),
       r_timestamp = created (errorReads rd), r_error = Some e\<rparr>"
  by (subst processMessage_failure[OF assms, where e=e]) (simp_all add: callOpenAI_def)

text \<open>
  C1. When the client throws an error of message \<open>e\<close> on the request of
  \<^verbatim>\<open>processMessage\<close>, or answers without content (then \<open>e\<close> is the fixed text of
  \<^verbatim>\<open>callOpenAI\<close>), the call returns a result, with \<open>success\<close> false, the apology
  as message, the session id, and \<open>e\<close> as error; the last message of the session is
  then an assistant message with the apology as content and
  \<^verbatim>\<open>{error: true, originalError: e}\<close> as metadata, it is in the message collection,
  and the result carries its id and timestamp.
\<close>

theorem processMessage_llm_failure:
  assumes "sessionId \<noteq> []" and "userMessage \<noteq> []"
      and "create (sentRequest svc envPrompt rd st sessionId userMessage opts) = Fault e
         \<or> (create (sentRequest svc envPrompt rd st sessionId userMessage opts)
               \<in> {Response None, Response (Some [])} \<and> e = noResponse)"
  shows "(let (res, st') = processMessage svc (Inr (Some create)) envPrompt rd st sessionId userMessage opts;
              errorMsg = last (getSessionMessages st' sessionId None)
          in getSessionMessages st' sessionId None \<noteq> []
           \<and> messages st' (m_id errorMsg) = Some errorMsg
           \<and> m_sessionId errorMsg = sessionId
           \<and> m_role errorMsg = js ''assistant''
           \<and> m_content errorMsg = apology
           \<and> m_metadata errorMsg = [(js ''error'', VBool True), (js ''originalError'', VStr e)]
           \<and> res = \<lparr>r_success = False, r_message = apology, r_sessionId = sessionId,
                     r_messageId = m_id errorMsg, r_timestamp = m_timestamp errorMsg,
                     r_error = Some e\<rparr>)"
proof -
  have f: "callOpenAI svc (Inr (Some create)) (prepareMessagesForOpenAI envPrompt
              (getSessionMessages (userSaved rd st sessionId userMessage) sessionId (Some 10))) opts = Inl e"
    by (rule callOpenAI_failure) (use assms(3) in \<open>simp add: sentRequest_def\<close>)
  show ?thesis
    unfolding processMessage_failure[OF assms(1,2) f]
    using errorMessage_persisted[of rd st sessionId userMessage e]
    by (simp add: Let_def)
qed

theorem processMessage_llm_failure_witness:
  "js ''s1'' \<noteq> [] \<and> js ''hello'' \<noteq> []
   \<and> failingClient (sentRequest demo_service None demo_reads empty_store (js ''s1'') (js ''hello'')
          no_options) = Fault (js ''boom'')
   \<and> r_success (fst (processMessage demo_service (Inr (Some failingClient)) None demo_reads empty_store
            (js ''s1'') (js ''hello'') no_options)) = False
   \<and> r_message (fst (processMessage demo_service (Inr (Some failingClient)) None demo_reads empty_store
            (js ''s1'') (js ''hello'') no_options)) = apology
   \<and> r_error (fst (processMessage demo_service (Inr (Some failingClient)) None demo_reads empty_store
            (js ''s1'') (js ''hello'') no_options)) = Some (js ''boom'')
   \<and> m_content (last (getSessionMessages
         (snd (processMessage demo_service (Inr (Some failingClient)) None demo_reads empty_store
            (js ''s1'') (js ''hello'') no_options)) (js ''s1'') None)) = apology"
proof -
  have a: "js ''s1'' \<noteq> []" and b: "js ''hello'' \<noteq> []" by simp_all
  from processMessage_llm_failure[where sessionId="js ''s1''" and userMessage="js ''hello''"
        and create=failingClient and svc=demo_service and envPrompt=None and rd=demo_reads
        and st=empty_store and opts=no_options and e="js ''boom''"] a b demo_fault
  show ?thesis
    by (simp add: case_prod_unfold Let_def)
qed

text \<open>
  C3 (as amended). When the call of the client fails with the error text \<open>e\<close>, that
  text is kept in the metadata of the persisted message and is also returned to the
  caller, as the \<open>error\<close> field of the result; the \<open>message\<close> field of the result
  is the fixed apology, whatever \<open>e\<close> is.
\<close>

theorem llm_error_text_returned:
  assumes "sessionId \<noteq> []" and "userMessage \<noteq> []"
      and "create (sentRequest svc envPrompt rd st sessionId userMessage opts) = Fault e
         \<or> (create (sentRequest svc envPrompt rd st sessionId userMessage opts)
               \<in> {Response None, Response (Some [])} \<and> e = noResponse)"
  shows "(let (res, st') = processMessage svc (Inr (Some create)) envPrompt rd st sessionId userMessage opts
          in r_error res = Some e
           \<and> r_message res = apology
           \<and> map_of (m_metadata (last (getSessionMessages st' sessionId None))) (js ''originalError'')
               = Some (VStr e))"
proof -
  have f: "callOpenAI svc (Inr (Some create)) (prepareMessagesForOpenAI envPrompt
              (getSessionMessages (userSaved rd st sessionId userMessage) sessionId (Some 10))) opts = Inl e"
    by (rule callOpenAI_failure) (use assms(3) in \<open>simp add: sentRequest_def\<close>)
  show ?thesis
    unfolding processMessage_failure[OF assms(1,2) f]
    using errorMessage_persisted[of rd st sessionId userMessage e]
    by (simp add: Let_def)
qed

theorem llm_error_text_returned_witness:
  "r_message (fst (processMessage demo_service (Inr (Some failingClient)) None demo_reads empty_store
            (js ''s1'') (js ''hello'') no_options)) = apology
   \<and> map_of (m_metadata (last (getSessionMessages
         (snd (processMessage demo_service (Inr (Some failingClient)) None demo_reads empty_store
            (js ''s1'') (js ''hello'') no_options)) (js ''s1'') None))) (js ''originalError'')
       = Some (VStr (js ''boom''))"
proof -
  have a: "js ''s1'' \<noteq> []" and b: "js ''hello'' \<noteq> []" by simp_all
  from llm_error_text_returned[where sessionId="js ''s1''" and userMessage="js ''hello''" and create=failingClient
        and svc=demo_service and envPrompt=None and rd=demo_reads and st=empty_store
        and opts=no_options and e="js ''boom''"] a b demo_fault
  show ?thesis
    by (simp add: case_prod_unfold Let_def)
qed

text \<open>
  C3 as stated fails: the result returned for a client that throws \<^verbatim>\<open>boom\<close> holds
  \<^verbatim>\<open>boom\<close> in its \<open>error\<close> field.
\<close>

theorem llm_error_text_exposed:
  "failingClient (sentRequest demo_service None demo_reads empty_store (js ''s1'') (js ''hello'')
      no_options) = Fault (js ''boom'')
   \<and> r_error (fst (processMessage demo_service (Inr (Some failingClient)) None demo_reads empty_store
                   (js ''s1'') (js ''hello'') no_options)) = Some (js ''boom'')"
proof -
  have f: "callOpenAI demo_service (Inr (Some failingClient)) (prepareMessagesForOpenAI None
              (getSessionMessages (userSaved demo_reads empty_store (js ''s1'') (js ''hello''))
                 (js ''s1'') (Some 10))) no_options = Inl (js ''boom'')"
    by (simp add: callOpenAI_def failingClient_def)
  have "r_error (fst (processMessage demo_service (Inr (Some failingClient)) None demo_reads empty_store
                   (js ''s1'') (js ''hello'') no_options)) = Some (js ''boom'')"
    by (subst processMessage_failure[OF _ _ f]) simp_all
  with demo_fault show ?thesis by simp
qed




section \<open>Properties of validation and sanitizing\<close>

lemma validated_model:
  "o_model (validateOptions parseFloat parseInt raw) = Some m \<Longrightarrow> m \<noteq> [] \<and> m \<in> set allowedModels"
  by (auto simp: validateOptions_def split: option.splits jsval.splits if_splits)

lemma validated_maxTokens:
  "o_maxTokens (validateOptions parseFloat parseInt raw) = Some t \<Longrightarrow>
     \<not> isNaN t \<and> num_gt t (Num 0) \<and> num_le t (Num 4000)"
  by (auto simp: validateOptions_def Let_def split: option.splits if_splits)

lemma validated_temperature:
  "o_temperature (validateOptions parseFloat parseInt raw) = Some x \<Longrightarrow>
     \<not> isNaN x \<and> num_ge x (Num 0) \<and> num_le x (Num 2)"
  by (auto simp: validateOptions_def Let_def split: option.splits if_splits)

lemma truthy_unless_zero: "\<not> isNaN x \<Longrightarrow> x \<noteq> Num 0 \<Longrightarrow> truthy_num x"
  by (cases x) auto

lemma accepted_options_used:
  fixes parseFloat parseInt raw
  defines "opts \<equiv> validateOptions parseFloat parseInt raw"
  shows "o_model opts = Some m \<Longrightarrow> rq_model (completionRequest svc msgs opts) = m"
    and "o_maxTokens opts = Some t \<Longrightarrow> rq_max_tokens (completionRequest svc msgs opts) = t"
    and "o_temperature opts = Some x \<Longrightarrow> x \<noteq> Num 0 \<Longrightarrow>
           rq_temperature (completionRequest svc msgs opts) = x"
    and "o_temperature opts = Some (Num 0) \<Longrightarrow>
           rq_temperature (completionRequest svc msgs opts) = temperature svc"
proof -
  show "o_model opts = Some m \<Longrightarrow> rq_model (completionRequest svc msgs opts) = m"
    using validated_model[of parseFloat parseInt raw m]
    by (simp add: opts_def completionRequest_def)
  show "o_maxTokens opts = Some t \<Longrightarrow> rq_max_tokens (completionRequest svc msgs opts) = t"
    using validated_maxTokens[of parseFloat parseInt raw t] truthy_unless_zero[of t]
    by (auto simp: opts_def completionRequest_def num_gt_def)
  show "o_temperature opts = Some x \<Longrightarrow> x \<noteq> Num 0 \<Longrightarrow>
           rq_temperature (completionRequest svc msgs opts) = x"
    using validated_temperature[of parseFloat parseInt raw x] truthy_unless_zero[of x]
    by (auto simp: opts_def completionRequest_def)
  show "o_temperature opts = Some (Num 0) \<Longrightarrow>
           rq_temperature (completionRequest svc msgs opts) = temperature svc"
    by (simp add: completionRequest_def)
qed

text \<open>
  C2. The claim holds for the model, for the token limit and for every accepted
  temperature but \<open>0\<close> (lemma \<open>accepted_options_used\<close>). A temperature of \<open>0\<close>
  passes \<^verbatim>\<open>validateOptions\<close> and is then taken for absent by
  \<^verbatim>\<open>options.temperature || this.temperature\<close>: the request goes out with the
  default of the service, here \<open>0.7\<close>. The only fact used of \<^verbatim>\<open>parseFloat\<close> is that
  it reads the number \<open>0\<close> as \<open>0\<close>.
\<close>

theorem temperature_zero_not_sent:
  assumes "parseFloat (VNum (Num 0)) = Num 0"
  shows "(let opts = validateOptions parseFloat parseInt
                       (Some \<lparr>raw_model = VUndefined, raw_temperature = VNum (Num 0),
                              raw_maxTokens = VUndefined\<rparr>)
          in o_temperature opts = Some (Num 0)
           \<and> rq_temperature (sentRequest demo_service envPrompt rd st sessionId userMessage opts)
               = Num (7 / 10))"
  using assms
  by (simp add: validateOptions_def sentRequest_def completionRequest_def demo_service_def
        ChatService_def num_ge_def Let_def)

theorem temperature_zero_not_sent_witness:
  "(let opts = validateOptions (\<lambda>v. case v of VNum x \<Rightarrow> x | _ \<Rightarrow> NaN) (\<lambda>v. NaN)
                       (Some \<lparr>raw_model = VUndefined, raw_temperature = VNum (Num 0),
                              raw_maxTokens = VUndefined\<rparr>)
          in o_temperature opts = Some (Num 0)
           \<and> rq_temperature (sentRequest demo_service None demo_reads empty_store (js ''s1'')
                 (js ''hello'') opts) = Num (7 / 10))"
  using temperature_zero_not_sent[of "\<lambda>v. case v of VNum x \<Rightarrow> x | _ \<Rightarrow> NaN" "\<lambda>v. NaN" None demo_reads empty_store
              "js ''s1''" "js ''hello''"]
  by simp

lemma replaceAll_absent: "c \<notin> set s \<Longrightarrow> replaceAll c r s = s"
  by (induction s) (auto simp: replaceAll_def)

lemma set_trim: "set (trim s) \<subseteq> set s"
proof -
  have "set (trim s) \<subseteq> set (dropWhile isWhiteSpace s)"
    unfolding trim_def using set_dropWhileD[of _ isWhiteSpace "rev (dropWhile isWhiteSpace s)"] by auto
  also have "\<dots> \<subseteq> set s" using set_dropWhileD[of _ isWhiteSpace s] by auto
  finally show ?thesis .
qed

lemma trim_trim: "trim (trim s) = trim s"
proof -
  define t where "t = dropWhile isWhiteSpace s"
  define u where "u = dropWhile isWhiteSpace (rev t)"
  have tr: "trim s = rev u" by (simp add: trim_def t_def u_def)
  have front: "dropWhile isWhiteSpace (rev u) = rev u"
  proof (cases "u = []")
    case True
    then show ?thesis by simp
  next
    case False
    have "rev t = takeWhile isWhiteSpace (rev t) @ u" by (simp add: u_def)
    then have "last (rev t) = last u" using False by (metis last_appendR)
    moreover have "t \<noteq> []" using False by (auto simp: u_def)
    ultimately have "last u = hd t" by (simp add: last_rev)
    moreover have "\<not> isWhiteSpace (hd t)"
      using \<open>t \<noteq> []\<close> unfolding t_def by (rule hd_dropWhile)
    ultimately have "\<not> isWhiteSpace (hd (rev u))" using False by (simp add: hd_rev)
    then show ?thesis by (simp add: dropWhile_eq_self_iff)
  qed
  have "trim (rev u) = rev (dropWhile isWhiteSpace u)"
    by (simp add: trim_def front)
  also have "\<dots> = rev u" by (simp add: u_def)
  finally show ?thesis by (simp add: tr)
qed

lemma filter_trim_clean:
  "\<forall>c\<in>set y. \<not> isControl c \<Longrightarrow> filter (\<lambda>c. \<not> isControl c) (trim y) = trim y"
  using set_trim[of y] by (auto simp: filter_id_conv)

lemma sanitize_plain:
  assumes "set x \<inter> special = {}"
  shows "sanitizeString (VStr x) = filter (\<lambda>c. \<not> isControl c) (trim x)"
proof -
  have "set (filter (\<lambda>c. \<not> isControl c) (trim x)) \<inter> special = {}"
    using assms set_trim[of x] by auto
  then show ?thesis
    by (simp add: sanitizeString_def special_def replaceAll_absent)
qed

lemma sanitize_twice:
  assumes "set x \<inter> special = {}"
  shows "sanitizeString (VStr (sanitizeString (VStr x))) = trim (sanitizeString (VStr x))"
proof -
  let ?y = "filter (\<lambda>c. \<not> isControl c) (trim x)"
  have y: "sanitizeString (VStr x) = ?y" by (rule sanitize_plain[OF assms])
  have "set ?y \<inter> special = {}" using assms set_trim[of x] by auto
  then have "sanitizeString (VStr ?y) = filter (\<lambda>c. \<not> isControl c) (trim ?y)"
    by (rule sanitize_plain)
  also have "\<dots> = trim ?y" by (rule filter_trim_clean) simp
  finally show ?thesis by (simp add: y)
qed

lemma not_white: "isWhiteSpace 32" "\<not> isWhiteSpace 97" "\<not> isWhiteSpace 7"
  by (simp_all add: isWhiteSpace_def)

text \<open>
  C8 (as amended). For a string \<open>x\<close> with none of the six characters
  \<^verbatim>\<open>& < > " ' /\<close>, sanitizing twice gives the same as sanitizing once exactly when
  the sanitized string neither starts nor ends with white space; this is so whenever
  \<open>x\<close> has no control character.
\<close>

theorem sanitizeString_idempotent:
  assumes "set x \<inter> special = {}"
  shows "(sanitizeString (VStr (sanitizeString (VStr x))) = sanitizeString (VStr x)
           \<longleftrightarrow> trim (sanitizeString (VStr x)) = sanitizeString (VStr x))
       \<and> ((\<forall>c\<in>set x. \<not> isControl c) \<longrightarrow>
            sanitizeString (VStr (sanitizeString (VStr x))) = sanitizeString (VStr x))"
proof (intro conjI impI)
  show "sanitizeString (VStr (sanitizeString (VStr x))) = sanitizeString (VStr x)
           \<longleftrightarrow> trim (sanitizeString (VStr x)) = sanitizeString (VStr x)"
    by (simp only: sanitize_twice[OF assms])
next
  assume clean: "\<forall>c\<in>set x. \<not> isControl c"
  have e: "sanitizeString (VStr x) = trim x"
    using clean by (simp add: sanitize_plain[OF assms] filter_trim_clean)
  have "sanitizeString (VStr (sanitizeString (VStr x))) = trim (sanitizeString (VStr x))"
    by (rule sanitize_twice[OF assms])
  also have "\<dots> = trim (trim x)" by (simp only: e)
  also have "\<dots> = trim x" by (rule trim_trim)
  finally show "sanitizeString (VStr (sanitizeString (VStr x))) = sanitizeString (VStr x)"
    by (simp only: e)
qed

theorem sanitizeString_idempotent_witness:
  "set [32, 97, 32, 98, 32] \<inter> special = {}
   \<and> filter isControl [32, 97, 32, 98, 32] = []
   \<and> sanitizeString (VStr [32, 97, 32, 98, 32]) = [97, 32, 98]
   \<and> sanitizeString (VStr (sanitizeString (VStr [32, 97, 32, 98, 32]))) = [97, 32, 98]"
proof -
  have a: "set [32, 97, 32, 98, 32::nat] \<inter> special = {}" by (simp add: special_def)
  have b: "\<forall>c\<in>set [32, 97, 32, 98, 32::nat]. \<not> isControl c" by (simp add: isControl_def)
  have c: "sanitizeString (VStr [32, 97, 32, 98, 32]) = [97, 32, 98]"
    by (simp add: sanitizeString_def trim_def isWhiteSpace_def isControl_def replaceAll_def)
  from sanitizeString_idempotent[OF a] a b c show ?thesis
    by (simp add: isControl_def)
qed

text \<open>
  C8 as stated fails: in \<^verbatim>\<open>"a \x07"\<close> the control character shields the space from
  the first \<^verbatim>\<open>trim\<close>; once it is removed the space ends the string, and the second
  pass trims it.
\<close>

theorem sanitizeString_not_idempotent:
  "set [97, 32, 7] \<inter> special = {}
   \<and> sanitizeString (VStr [97, 32, 7]) = [97, 32]
   \<and> sanitizeString (VStr (sanitizeString (VStr [97, 32, 7]))) = [97]"
  by (simp add: special_def sanitizeString_def trim_def not_white isControl_def replaceAll_def)

section \<open>Properties of the rate limiter\<close>

lemma or_str_key:
  "or_str (body_sessionId req) (or_str (query_sessionId req) []) = k \<Longrightarrow> k \<noteq> [] \<Longrightarrow>
   sessionLimiter cfg tbl req now =
     (case tbl k of
        None \<Rightarrow> (Next, tbl(k \<mapsto> \<lparr>sd_count = 1, sd_resetTime = now + lim_windowMs cfg\<rparr>))
      | Some d \<Rightarrow>
          if now > sd_resetTime d
          then (Next, tbl(k \<mapsto> \<lparr>sd_count = 1, sd_resetTime = now + lim_windowMs cfg\<rparr>))
          else if sd_count d \<ge> lim_max cfg
          then (TooMany \<lparr>rej_status = 429, rej_error = tooManyText,
                  rej_retryAfter = numberToString (ceilSeconds (sd_resetTime d - now)) @ js '' segundos''\<rparr>, tbl)
          else (Next, tbl(k \<mapsto> d\<lparr>sd_count := sd_count d + 1\<rparr>)))"
  by (auto simp: sessionLimiter_def Let_def split: option.splits)

text \<open>
  C9. With a maximum of 2 and a window of 1000 ms, for a key that has no open window:
  the first three requests of the key, the second and third no later than the end of
  the window the first opens, are let through, let through and rejected with status
  429 and the seconds left as hint; a request after the end of the window is let
  through. For any limiter, a request is rejected exactly when it has a key, the key
  has a window that has not expired, and the counter of the key has reached the maximum.
\<close>

theorem sessionLimiter_window:
  assumes key: "or_str (body_sessionId req) (or_str (query_sessionId req) []) = k" "k \<noteq> []"
      and fresh: "case tbl k of None \<Rightarrow> True | Some d \<Rightarrow> sd_resetTime d < t1"
      and within: "t2 \<le> t1 + 1000" "t3 \<le> t1 + 1000"
      and after: "t1 + 1000 < t4"
  shows "runLimiter (createSessionLimiter (Some 1000) (Some 2)) tbl
           [(req, t1), (req, t2), (req, t3), (req, t4)]
         = [Next, Next,
            TooMany \<lparr>rej_status = 429, rej_error = tooManyText,
                     rej_retryAfter = numberToString (ceilSeconds (t1 + 1000 - t3)) @ js '' segundos''\<rparr>,
            Next]
       \<and> ((\<exists>r. fst (sessionLimiter cfg tbl0 req0 now) = TooMany r)
            \<longleftrightarrow> (let sessionId = or_str (body_sessionId req0) (or_str (query_sessionId req0) [])
                 in sessionId \<noteq> [] \<and>
                    (\<exists>d. tbl0 sessionId = Some d \<and> now \<le> sd_resetTime d \<and> lim_max cfg \<le> sd_count d)))"
proof -
  note step = or_str_key[OF key]
  have run: "runLimiter (createSessionLimiter (Some 1000) (Some 2)) tbl
           [(req, t1), (req, t2), (req, t3), (req, t4)]
         = [Next, Next,
            TooMany \<lparr>rej_status = 429, rej_error = tooManyText,
                     rej_retryAfter = numberToString (ceilSeconds (t1 + 1000 - t3)) @ js '' segundos''\<rparr>,
            Next]"
    using fresh within after
    by (auto simp: step createSessionLimiter_def split: option.splits)
  have gen: "(\<exists>r. fst (sessionLimiter cfg tbl0 req0 now) = TooMany r)
            \<longleftrightarrow> (let sessionId = or_str (body_sessionId req0) (or_str (query_sessionId req0) [])
                 in sessionId \<noteq> [] \<and>
                    (\<exists>d. tbl0 sessionId = Some d \<and> now \<le> sd_resetTime d \<and> lim_max cfg \<le> sd_count d))"
    by (auto simp: sessionLimiter_def Let_def split: option.splits)
  from run gen show ?thesis by blast
qed

theorem sessionLimiter_window_witness:
  "runLimiter (createSessionLimiter (Some 1000) (Some 2)) Map.empty
     [(\<lparr>body_sessionId = Some (js ''k''), query_sessionId = None\<rparr>, 0),
      (\<lparr>body_sessionId = Some (js ''k''), query_sessionId = None\<rparr>, 100),
      (\<lparr>body_sessionId = Some (js ''k''), query_sessionId = None\<rparr>, 200),
      (\<lparr>body_sessionId = Some (js ''k''), query_sessionId = None\<rparr>, 1500)]
   = [Next, Next,
      TooMany \<lparr>rej_status = 429, rej_error = tooManyText, rej_retryAfter = 49 # js '' segundos''\<rparr>,
      Next]"
proof -
  let ?req = "\<lparr>body_sessionId = Some (js ''k''), query_sessionId = None\<rparr>"
  have k: "or_str (body_sessionId ?req) (or_str (query_sessionId ?req) []) = js ''k''" by simp
  have n: "js ''k'' \<noteq> []" by simp
  have hint: "numberToString (ceilSeconds (0 + 1000 - 200)) = [49]"
    by (simp add: numberToString_def ceilSeconds_def digits10.simps)
  from sessionLimiter_window[OF k n, where tbl=Map.empty and ?t1.0=0 and ?t2.0=100 and ?t3.0=200 and ?t4.0=1500] hint
  show ?thesis by simp
qed

end
